theory Spec2Isabelle
  imports Complex_Main "HOL-Library.Word"
begin

section \<open>Floating-point values\<close>

text \<open>
  The synthesiser computes with C++ \<^verbatim>\<open>float\<close> and \<^verbatim>\<open>double\<close>. A value of either type is
  a finite number, one of the two infinities, or not-a-number. Finite values are carried
  as exact reals: rounding to the binary format and overflow to infinity are not
  modelled, and the two zeros are identified (a zero divisor counts as positive zero).
  What is modelled exactly is the part of IEEE 754 arithmetic that the program can
  reach with exact operands: division by zero, arithmetic on infinities, and
  comparisons with not-a-number (always false).
\<close>

datatype fl = Fin real | PInf | NInf | NaN

fun fl_neg :: "fl \<Rightarrow> fl" where
  "fl_neg (Fin x) = Fin (- x)"
| "fl_neg PInf = NInf"
| "fl_neg NInf = PInf"
| "fl_neg NaN = NaN"

fun fl_add :: "fl \<Rightarrow> fl \<Rightarrow> fl" where
  "fl_add (Fin x) (Fin y) = Fin (x + y)"
| "fl_add NaN _ = NaN"
| "fl_add _ NaN = NaN"
| "fl_add PInf NInf = NaN"
| "fl_add NInf PInf = NaN"
| "fl_add PInf _ = PInf"
| "fl_add _ PInf = PInf"
| "fl_add NInf _ = NInf"
| "fl_add _ NInf = NInf"

definition fl_sub :: "fl \<Rightarrow> fl \<Rightarrow> fl" where
  "fl_sub a b = fl_add a (fl_neg b)"

fun fl_mul :: "fl \<Rightarrow> fl \<Rightarrow> fl" where
  "fl_mul (Fin x) (Fin y) = Fin (x * y)"
| "fl_mul NaN _ = NaN"
| "fl_mul _ NaN = NaN"
| "fl_mul (Fin x) PInf = (if x = 0 then NaN else if 0 < x then PInf else NInf)"
| "fl_mul (Fin x) NInf = (if x = 0 then NaN else if 0 < x then NInf else PInf)"
| "fl_mul PInf (Fin y) = (if y = 0 then NaN else if 0 < y then PInf else NInf)"
| "fl_mul NInf (Fin y) = (if y = 0 then NaN else if 0 < y then NInf else PInf)"
| "fl_mul PInf PInf = PInf"
| "fl_mul PInf NInf = NInf"
| "fl_mul NInf PInf = NInf"
| "fl_mul NInf NInf = PInf"

fun fl_div :: "fl \<Rightarrow> fl \<Rightarrow> fl" where
  "fl_div (Fin x) (Fin y) =
     (if y = 0 then (if x = 0 then NaN else if 0 < x then PInf else NInf) else Fin (x / y))"
| "fl_div NaN _ = NaN"
| "fl_div _ NaN = NaN"
| "fl_div (Fin x) PInf = Fin 0"
| "fl_div (Fin x) NInf = Fin 0"
| "fl_div PInf (Fin y) = (if 0 \<le> y then PInf else NInf)"
| "fl_div NInf (Fin y) = (if 0 \<le> y then NInf else PInf)"
| "fl_div PInf PInf = NaN"
| "fl_div PInf NInf = NaN"
| "fl_div NInf PInf = NaN"
| "fl_div NInf NInf = NaN"

text \<open>The comparison \<^verbatim>\<open>a < b\<close>; \<^verbatim>\<open>a > b\<close> is written \<open>fl_less b a\<close>.\<close>

fun fl_less :: "fl \<Rightarrow> fl \<Rightarrow> bool" where
  "fl_less (Fin x) (Fin y) = (x < y)"
| "fl_less NaN _ = False"
| "fl_less _ NaN = False"
| "fl_less _ NInf = False"
| "fl_less PInf _ = False"
| "fl_less NInf _ = True"
| "fl_less _ PInf = True"

text \<open>
  Conversion of a \<^verbatim>\<open>double\<close> to \<^verbatim>\<open>int\<close> truncates toward zero. C++ leaves the result
  undefined when the truncated value does not fit (or the operand is not finite); the
  model takes the result of the x86-64 conversion instruction there, the smallest
  \<^verbatim>\<open>int\<close>.
\<close>

definition truncate_toward_zero :: "real \<Rightarrow> int" where
  "truncate_toward_zero x = (if 0 \<le> x then \<lfloor>x\<rfloor> else \<lceil>x\<rceil>)"

fun fl_to_int :: "fl \<Rightarrow> int" where
  "fl_to_int (Fin x) =
     (let t = truncate_toward_zero x
      in if - 2147483648 \<le> t \<and> t < 2147483648 then t else - 2147483648)"
| "fl_to_int PInf = - 2147483648"
| "fl_to_int NInf = - 2147483648"
| "fl_to_int NaN = - 2147483648"


section \<open>Shared sensor state\<close>

text \<open>
  The globals of the source: \<^verbatim>\<open>buf_size\<close>, the ring \<^verbatim>\<open>c_buf\<close> of distances (oldest
  reading first), \<^verbatim>\<open>moving_average\<close> (initially 0) and \<^verbatim>\<open>beta\<close>. A distance is a
  32-bit signed integer that the program only stores, compares and converts; it is
  carried as an integer.
\<close>

definition buf_size :: nat where
  "buf_size = 128"

definition beta :: fl where
  "beta = Fin (9 / 10)"

record sensor =
  c_buf :: "int list"
  moving_average :: fl

definition sensor_init :: sensor where
  "sensor_init = \<lparr>c_buf = [], moving_average = Fin 0\<rparr>"

text \<open>\<^verbatim>\<open>c_buf.push_back\<close>: a full ring drops its oldest element.\<close>

definition push_back :: "int \<Rightarrow> int list \<Rightarrow> int list" where
  "push_back x xs = (if length xs < buf_size then xs @ [x] else tl xs @ [x])"

text \<open>
  \<^verbatim>\<open>moving_average = beta * moving_average + (1 - beta) * sample.distance + 1.\<close>
\<close>

definition update_average :: "int \<Rightarrow> fl \<Rightarrow> fl" where
  "update_average distance ma =
     fl_add (fl_add (fl_mul beta ma) (fl_mul (fl_sub (Fin 1) beta) (Fin (of_int distance))))
            (Fin 1)"

text \<open>The body of the loop over the samples of one scan.\<close>

definition push :: "int \<Rightarrow> sensor \<Rightarrow> sensor" where
  "push distance s =
     \<lparr>c_buf = push_back distance (c_buf s),
      moving_average = update_average distance (moving_average s)\<rparr>"

section \<open>Sensor thread\<close>

datatype exn = thread_aborted | device_error

text \<open>\<^verbatim>\<open>check_exit\<close> throws \<^verbatim>\<open>thread_aborted\<close> when the flag is set.\<close>

definition check_exit :: "bool \<Rightarrow> exn option" where
  "check_exit exit_flag = (if exit_flag then Some thread_aborted else None)"

text \<open>
  What one pass of the loop meets: the outcome of \<^verbatim>\<open>device.get_scan()\<close> (the samples'
  distances, or an error raised by the device library) and the value of \<^verbatim>\<open>exit_flag\<close>
  at the moment \<^verbatim>\<open>check_exit\<close> reads it.
\<close>

record iteration =
  get_scan :: "exn + int list"
  exit_flag :: bool

text \<open>
  The \<^verbatim>\<open>try\<close> block: the exception that leaves it, if any, and the sensor state then.
\<close>

definition try_block :: "iteration \<Rightarrow> sensor \<Rightarrow> exn option \<times> sensor" where
  "try_block it s =
     (case get_scan it of
        Inl e \<Rightarrow> (Some e, s)
      | Inr samples \<Rightarrow> (check_exit (exit_flag it), fold push samples s))"

text \<open>
  \<^verbatim>\<open>while (true) try { ... } catch (thread_aborted& e) { }\<close>: the \<^verbatim>\<open>try\<close> block with
  its handler is the body of the loop. The list holds the passes the environment
  supplies; \<open>Running\<close> is the loop still going after them, \<open>Terminated\<close> an exception
  that left the loop and with it the thread's function.
\<close>

datatype thread_result = Running sensor | Terminated exn sensor

fun subscriber :: "iteration list \<Rightarrow> sensor \<Rightarrow> thread_result" where
  "subscriber [] s = Running s"
| "subscriber (it # its) s =
     (case try_block it s of
        (None, s') \<Rightarrow> subscriber its s'
      | (Some thread_aborted, s') \<Rightarrow> subscriber its s'
      | (Some e, s') \<Rightarrow> Terminated e s')"

section \<open>Reading the ring\<close>

text \<open>
  \<^verbatim>\<open>c_buf[idx]\<close> is the element access \<^verbatim>\<open>operator[]\<close> of the library's ring buffer, which
  the source file does not define. By the library's documentation it does not check its
  index and throws nothing (only the access \<^verbatim>\<open>at\<close> checks and throws). Inside the
  filled range it yields the stored reading. Outside it the behaviour is undefined; the
  access is taken to read whatever the storage holds at the place it computes from the
  index, and this is the parameter \<open>beyond\<close>: nothing in the program determines it.
\<close>

definition c_buf_at :: "(int \<Rightarrow> int) \<Rightarrow> int list \<Rightarrow> int \<Rightarrow> exn + int" where
  "c_buf_at beyond buf idx =
     Inr (if 0 \<le> idx \<and> idx < int (length buf) then buf ! nat idx else beyond idx)"

text \<open>The statement inside \<^verbatim>\<open>try\<close>: \<^verbatim>\<open>(c_buf[idx] < 1000) ? c_buf[idx] : 1000\<close>.\<close>

definition clamped_read :: "(int \<Rightarrow> int) \<Rightarrow> int list \<Rightarrow> int \<Rightarrow> exn + int" where
  "clamped_read beyond buf idx =
     (case c_buf_at beyond buf idx of
        Inl e \<Rightarrow> Inl e
      | Inr x \<Rightarrow> if x < 1000 then c_buf_at beyond buf idx else Inr 1000)"

text \<open>The whole \<^verbatim>\<open>try\<close>/\<^verbatim>\<open>catch (...)\<close> statement, with what may still leave it.\<close>

definition sampleAt :: "(int \<Rightarrow> int) \<Rightarrow> int list \<Rightarrow> int \<Rightarrow> exn + int" where
  "sampleAt beyond buf idx =
     (case clamped_read beyond buf idx of Inl e \<Rightarrow> Inr 0 | Inr v \<Rightarrow> Inr v)"

text \<open>The value of \<^verbatim>\<open>val\<close> after the statement.\<close>

definition val_at :: "(int \<Rightarrow> int) \<Rightarrow> int list \<Rightarrow> int \<Rightarrow> fl" where
  "val_at beyond buf idx =
     (case clamped_read beyond buf idx of Inl e \<Rightarrow> Fin 0 | Inr v \<Rightarrow> Fin (of_int v))"

section \<open>Notes\<close>

definition twopi :: fl where
  "twopi = Fin (2 * 3.14159265358979)"

text \<open>
  The note states that \<^verbatim>\<open>Render\<close> switches on; the last two stand for the states of its
  \<^verbatim>\<open>default\<close> branch.
\<close>

datatype SynthNoteState =
  kNoteState_Attacked
| kNoteState_Sostenutoed
| kNoteState_ReleasedButSostenutoed
| kNoteState_ReleasedButSustained
| kNoteState_Released
| kNoteState_FastReleased
| kNoteState_Free
| kNoteState_Unset

text \<open>
  A note: the fields \<^verbatim>\<open>Render\<close> uses, and what the base class's \<^verbatim>\<open>GetState()\<close>,
  \<^verbatim>\<open>Frequency()\<close> and \<^verbatim>\<open>SampleRate()\<close> return for it.
\<close>

record TestNote =
  GetState :: SynthNoteState
  phase :: fl
  amp :: fl
  maxamp :: fl
  fast_dn_slope :: fl
  Frequency :: fl
  SampleRate :: fl

record globals =
  globalVol :: fl
  globalAmpAttack :: fl
  globalAmpRelease :: fl

text \<open>The parameter values that the constructor sets.\<close>

definition globals_init :: globals where
  "globals_init = \<lparr>globalVol = Fin 1, globalAmpAttack = Fin 0, globalAmpRelease = Fin 0\<rparr>"

text \<open>
  The destination of bus 0: the channel count and the channels' sample buffers. A write
  to a buffer or a frame that the list does not hold is dropped.
\<close>

record AudioBufferList =
  mNumberBuffers :: "32 word"
  mBuffers :: "fl list list"

definition kMaxActiveNotes :: nat where
  "kMaxActiveNotes = 8"

definition noErr :: int where
  "noErr = 0"

section \<open>Render\<close>

text \<open>\<^verbatim>\<open>double freq = Frequency() * (twopi/sampleRate)\<close>\<close>

definition freq :: "TestNote \<Rightarrow> fl" where
  "freq n = fl_mul (Frequency n) (fl_div twopi (SampleRate n))"

text \<open>\<^verbatim>\<open>int idx = int(phase/twopi*buf_size)\<close>\<close>

definition sample_idx :: "fl \<Rightarrow> int" where
  "sample_idx ph = fl_to_int (fl_mul (fl_div ph twopi) (Fin (of_nat buf_size)))"

text \<open>
  \<^verbatim>\<open>float out = (val - moving_average) / moving_average * amp * globalVol\<close>, for the
  phase before and the amplitude after the frame's update.
\<close>

definition frame_out :: "(int \<Rightarrow> int) \<Rightarrow> sensor \<Rightarrow> globals \<Rightarrow> fl \<Rightarrow> fl \<Rightarrow> fl" where
  "frame_out beyond sn g ph a =
     fl_mul (fl_mul (fl_div (fl_sub (val_at beyond (c_buf sn) (sample_idx ph)) (moving_average sn))
                            (moving_average sn)) a)
            (globalVol g)"

text \<open>\<^verbatim>\<open>left[frame] += out; if (right) right[frame] += out;\<close>\<close>

definition add_frame :: "nat \<Rightarrow> fl \<Rightarrow> fl list \<Rightarrow> fl list" where
  "add_frame frame out buf = buf[frame := fl_add (buf ! frame) out]"

definition write_out :: "int \<Rightarrow> nat \<Rightarrow> fl \<Rightarrow> fl list list \<Rightarrow> fl list list" where
  "write_out numChans frame out bufs =
     (let b1 = bufs[0 := add_frame frame out (bufs ! 0)]
      in if numChans = 2 then b1[1 := add_frame frame out (b1 ! 1)] else b1)"

text \<open>The amplitude updates of the three loops.\<close>

definition attack_amp :: "globals \<Rightarrow> TestNote \<Rightarrow> fl" where
  "attack_amp g n =
     (let a1 = (if fl_less (amp n) (maxamp n)
                then fl_add (amp n) (fl_div (maxamp n) (fl_mul (SampleRate n) (globalAmpAttack g)))
                else amp n)
      in if fl_less (maxamp n) a1 then maxamp n else a1)"

definition release_amp :: "globals \<Rightarrow> TestNote \<Rightarrow> fl" where
  "release_amp g n =
     (if fl_less (Fin 0) (amp n)
      then fl_sub (amp n) (fl_div (maxamp n) (fl_mul (SampleRate n) (globalAmpRelease g)))
      else amp n)"

definition fast_release_amp :: "TestNote \<Rightarrow> fl" where
  "fast_release_amp n =
     (if fl_less (Fin 0) (amp n) then fl_add (amp n) (fast_dn_slope n) else amp n)"

text \<open>\<^verbatim>\<open>else if (endFrame == 0xFFFFFFFF) endFrame = frame\<close>\<close>

definition mark_end :: "TestNote \<Rightarrow> nat \<Rightarrow> 32 word \<Rightarrow> 32 word" where
  "mark_end n frame endFrame =
     (if fl_less (Fin 0) (amp n) then endFrame
      else if endFrame = 0xFFFFFFFF then of_nat frame else endFrame)"

text \<open>
  What one frame does to the note. Attacked and sustained states: the amplitude update,
  then \<^verbatim>\<open>phase += freq; if (phase > twopi) phase -= twopi\<close>. Released and fast-released
  states: the amplitude update, then \<^verbatim>\<open>phase += freq\<close>.
\<close>

definition attacked_note :: "globals \<Rightarrow> TestNote \<Rightarrow> TestNote" where
  "attacked_note g n =
     (let p = fl_add (phase n) (freq n)
      in n\<lparr>phase := (if fl_less twopi p then fl_sub p twopi else p), amp := attack_amp g n\<rparr>)"

definition released_note :: "globals \<Rightarrow> TestNote \<Rightarrow> TestNote" where
  "released_note g n = n\<lparr>phase := fl_add (phase n) (freq n), amp := release_amp g n\<rparr>"

definition fast_released_note :: "TestNote \<Rightarrow> TestNote" where
  "fast_released_note n = n\<lparr>phase := fl_add (phase n) (freq n), amp := fast_release_amp n\<rparr>"

text \<open>
  One frame of each loop: the note, the buffers with the frame's output added, and in
  the two release loops \<^verbatim>\<open>endFrame\<close>.
\<close>

definition attacked_frame ::
  "(int \<Rightarrow> int) \<Rightarrow> sensor \<Rightarrow> globals \<Rightarrow> int \<Rightarrow> nat \<Rightarrow> TestNote \<times> fl list list \<Rightarrow> TestNote \<times> fl list list" where
  "attacked_frame beyond sn g numChans frame = (\<lambda>(n, bufs).
     (attacked_note g n,
      write_out numChans frame (frame_out beyond sn g (phase n) (attack_amp g n)) bufs))"

definition released_frame ::
  "(int \<Rightarrow> int) \<Rightarrow> sensor \<Rightarrow> globals \<Rightarrow> int \<Rightarrow> nat \<Rightarrow> TestNote \<times> fl list list \<times> 32 word
     \<Rightarrow> TestNote \<times> fl list list \<times> 32 word" where
  "released_frame beyond sn g numChans frame = (\<lambda>(n, bufs, endFrame).
     (released_note g n,
      write_out numChans frame (frame_out beyond sn g (phase n) (release_amp g n)) bufs,
      mark_end n frame endFrame))"

definition fast_released_frame ::
  "(int \<Rightarrow> int) \<Rightarrow> sensor \<Rightarrow> globals \<Rightarrow> int \<Rightarrow> nat \<Rightarrow> TestNote \<times> fl list list \<times> 32 word
     \<Rightarrow> TestNote \<times> fl list list \<times> 32 word" where
  "fast_released_frame beyond sn g numChans frame = (\<lambda>(n, bufs, endFrame).
     (fast_released_note n,
      write_out numChans frame (frame_out beyond sn g (phase n) (fast_release_amp n)) bufs,
      mark_end n frame endFrame))"

text \<open>
  What a call of \<^verbatim>\<open>Render\<close> leaves: the status it returns, the note, the buffers, and
  the frame passed to \<^verbatim>\<open>NoteEnded\<close> if it was called.
\<close>

record rendered =
  OSStatus :: int
  this_note :: TestNote
  ioData :: AudioBufferList
  NoteEnded :: "32 word option"

definition ended :: "32 word \<Rightarrow> 32 word option" where
  "ended endFrame = (if endFrame \<noteq> 0xFFFFFFFF then Some endFrame else None)"

text \<open>The three loops over the frames of a block, with what follows each.\<close>

definition attacked_block ::
  "(int \<Rightarrow> int) \<Rightarrow> sensor \<Rightarrow> globals \<Rightarrow> int \<Rightarrow> 32 word \<Rightarrow> TestNote \<Rightarrow> AudioBufferList \<Rightarrow> rendered" where
  "attacked_block beyond sn g numChans inNumFrames n abl =
     (let (n', bufs') =
            fold (attacked_frame beyond sn g numChans) [0..<unat inNumFrames] (n, mBuffers abl)
      in \<lparr>OSStatus = noErr, this_note = n', ioData = abl\<lparr>mBuffers := bufs'\<rparr>,
          NoteEnded = None\<rparr>)"

definition released_block ::
  "(int \<Rightarrow> int) \<Rightarrow> sensor \<Rightarrow> globals \<Rightarrow> int \<Rightarrow> 32 word \<Rightarrow> TestNote \<Rightarrow> AudioBufferList \<Rightarrow> rendered" where
  "released_block beyond sn g numChans inNumFrames n abl =
     (let (n', bufs', endFrame) =
            fold (released_frame beyond sn g numChans) [0..<unat inNumFrames]
              (n, mBuffers abl, 0xFFFFFFFF)
      in \<lparr>OSStatus = noErr, this_note = n', ioData = abl\<lparr>mBuffers := bufs'\<rparr>,
          NoteEnded = ended endFrame\<rparr>)"

definition fast_released_block ::
  "(int \<Rightarrow> int) \<Rightarrow> sensor \<Rightarrow> globals \<Rightarrow> int \<Rightarrow> 32 word \<Rightarrow> TestNote \<Rightarrow> AudioBufferList \<Rightarrow> rendered" where
  "fast_released_block beyond sn g numChans inNumFrames n abl =
     (let (n', bufs', endFrame) =
            fold (fast_released_frame beyond sn g numChans) [0..<unat inNumFrames]
              (n, mBuffers abl, 0xFFFFFFFF)
      in \<lparr>OSStatus = noErr, this_note = n', ioData = abl\<lparr>mBuffers := bufs'\<rparr>,
          NoteEnded = ended endFrame\<rparr>)"

text \<open>
  \<^verbatim>\<open>TestNote::Render\<close> on the first bus. The shared sensor state is read as it stands
  when the block starts.
\<close>

definition Render ::
  "(int \<Rightarrow> int) \<Rightarrow> sensor \<Rightarrow> globals \<Rightarrow> TestNote \<Rightarrow> 32 word \<Rightarrow> AudioBufferList \<Rightarrow> rendered" where
  "Render beyond sn g n inNumFrames abl =
     (let numChans = sint (mNumberBuffers abl)
      in if 2 < numChans
         then \<lparr>OSStatus = - 1, this_note = n, ioData = abl, NoteEnded = None\<rparr>
         else case GetState n of
           kNoteState_Attacked \<Rightarrow> attacked_block beyond sn g numChans inNumFrames n abl
         | kNoteState_Sostenutoed \<Rightarrow> attacked_block beyond sn g numChans inNumFrames n abl
         | kNoteState_ReleasedButSostenutoed \<Rightarrow> attacked_block beyond sn g numChans inNumFrames n abl
         | kNoteState_ReleasedButSustained \<Rightarrow> attacked_block beyond sn g numChans inNumFrames n abl
         | kNoteState_Released \<Rightarrow> released_block beyond sn g numChans inNumFrames n abl
         | kNoteState_FastReleased \<Rightarrow> fast_released_block beyond sn g numChans inNumFrames n abl
         | _ \<Rightarrow> \<lparr>OSStatus = noErr, this_note = n, ioData = abl, NoteEnded = None\<rparr>)"

section \<open>Voice allocation\<close>

text \<open>
  Modelled from the spec: note-on and voice stealing belong to the instrument base
  classes, which the source file calls but does not define. The model follows the
  specification's allocator: a pool of voices, each a note with the order in which it
  was triggered; a note-on claims the first free voice, and when none is free it steals
  the oldest-triggered voice among the active and released ones, forcing it to the
  fast-released state before the slot is given to the new note.
\<close>

text \<open>
  The note's own part in a release, a steal and a kill, as the source has it: each only
  calls the base class, \<^verbatim>\<open>TestNote::Release\<close> and \<^verbatim>\<open>TestNote::FastRelease\<close> both its
  \<^verbatim>\<open>SynthNote::Release\<close>, \<^verbatim>\<open>TestNote::Kill\<close> its \<^verbatim>\<open>SynthNote::Kill\<close>. The base class's
  methods are parameters.
\<close>

definition Release :: "('f \<Rightarrow> 'n \<Rightarrow> 'n) \<Rightarrow> 'f \<Rightarrow> 'n \<Rightarrow> 'n" where
  "Release SynthNote_Release inFrame n = SynthNote_Release inFrame n"

definition FastRelease :: "('f \<Rightarrow> 'n \<Rightarrow> 'n) \<Rightarrow> 'f \<Rightarrow> 'n \<Rightarrow> 'n" where
  "FastRelease SynthNote_Release inFrame n = SynthNote_Release inFrame n"

definition Kill :: "('f \<Rightarrow> 'n \<Rightarrow> 'n) \<Rightarrow> 'f \<Rightarrow> 'n \<Rightarrow> 'n" where
  "Kill SynthNote_Kill inFrame n = SynthNote_Kill inFrame n"

record voice = TestNote +
  triggered :: nat

definition stealable :: "voice \<Rightarrow> bool" where
  "stealable v = (GetState v \<in> {kNoteState_Attacked, kNoteState_Sostenutoed,
     kNoteState_ReleasedButSostenutoed, kNoteState_ReleasedButSustained, kNoteState_Released})"

definition active_count :: "voice list \<Rightarrow> nat" where
  "active_count pool = length (filter (\<lambda>v. GetState v \<noteq> kNoteState_Free) pool)"

fun first_free :: "voice list \<Rightarrow> nat option" where
  "first_free [] = None"
| "first_free (v # vs) =
     (if GetState v = kNoteState_Free then Some 0 else map_option Suc (first_free vs))"

fun oldest_victim :: "voice list \<Rightarrow> nat option" where
  "oldest_victim [] = None"
| "oldest_victim (v # vs) =
     (case oldest_victim vs of
        None \<Rightarrow> if stealable v then Some 0 else None
      | Some j \<Rightarrow> if stealable v \<and> triggered v \<le> triggered (vs ! j) then Some 0
                  else Some (Suc j))"

definition steal :: "voice list \<Rightarrow> nat \<Rightarrow> voice list" where
  "steal pool v = pool[v := (pool ! v)\<lparr>GetState := kNoteState_FastReleased\<rparr>]"

definition claim :: "voice list \<Rightarrow> nat \<Rightarrow> fl \<Rightarrow> nat \<Rightarrow> voice list" where
  "claim pool i f now =
     pool[i := (pool ! i)\<lparr>GetState := kNoteState_Attacked, phase := Fin 0, amp := Fin 0,
                          Frequency := f, triggered := now\<rparr>]"

text \<open>
  A note-on for a note of frequency \<open>f\<close>, the \<open>now\<close>-th to be triggered: the slot the
  new note gets, the pool just before the slot is assigned, and the pool after.
\<close>

definition noteOn :: "voice list \<Rightarrow> fl \<Rightarrow> nat \<Rightarrow> (nat \<times> voice list \<times> voice list) option" where
  "noteOn pool f now =
     (case first_free pool of
        Some i \<Rightarrow> Some (i, pool, claim pool i f now)
      | None \<Rightarrow>
          (case oldest_victim pool of
             None \<Rightarrow> None
           | Some v \<Rightarrow> Some (v, steal pool v, claim (steal pool v) v f now)))"

section \<open>Example values\<close>

text \<open>
  A note at 441 Hz and 44100 frames per second in a given state and with a given
  amplitude; the parameter values at the documented defaults of 1 ms; and silent
  destinations with one and with two channels.
\<close>

definition example_note :: "SynthNoteState \<Rightarrow> fl \<Rightarrow> TestNote" where
  "example_note st a =
     \<lparr>GetState = st, phase = Fin 0, amp = a, maxamp = Fin 1, fast_dn_slope = Fin (- (2 / 441)),
      Frequency = Fin 441, SampleRate = Fin 44100\<rparr>"

definition example_globals :: globals where
  "example_globals =
     \<lparr>globalVol = Fin 1, globalAmpAttack = Fin (1 / 1000), globalAmpRelease = Fin (1 / 1000)\<rparr>"

definition mono :: "nat \<Rightarrow> AudioBufferList" where
  "mono k = \<lparr>mNumberBuffers = 1, mBuffers = [replicate k (Fin 0)]\<rparr>"

definition stereo :: "nat \<Rightarrow> AudioBufferList" where
  "stereo k = \<lparr>mNumberBuffers = 2, mBuffers = [replicate k (Fin 0), replicate k (Fin 0)]\<rparr>"

definition example_voice :: "SynthNoteState \<Rightarrow> nat \<Rightarrow> voice" where
  "example_voice st k =
     \<lparr>GetState = st, phase = Fin 0, amp = Fin 1, maxamp = Fin 1, fast_dn_slope = Fin (- (2 / 441)),
      Frequency = Fin 441, SampleRate = Fin 44100, triggered = k\<rparr>"

section \<open>Moving average\<close>

lemma update_average_Fin:
  "update_average r (Fin m) = Fin (9 / 10 * m + 1 / 10 * of_int r + 1)"
  by (simp add: update_average_def beta_def fl_sub_def)

lemma moving_average_push:
  "moving_average (push r s) = update_average r (moving_average s)"
  by (simp add: push_def)

lemma fold_push_average:
  "moving_average s = Fin m0 \<Longrightarrow> 0 \<le> m0 \<Longrightarrow> \<forall>r\<in>set rs. 0 \<le> r \<Longrightarrow>
   \<exists>m. moving_average (fold push rs s) = Fin m \<and> (if rs = [] then m = m0 else 1 \<le> m)"
proof (induction rs arbitrary: s m0)
  case Nil
  then show ?case by simp
next
  case (Cons r rs)
  let ?m1 = "9 / 10 * m0 + 1 / 10 * of_int r + 1"
  have step: "moving_average (push r s) = Fin ?m1"
    using Cons.prems(1) by (simp add: moving_average_push update_average_Fin)
  have ge: "1 \<le> ?m1"
    using Cons.prems(2,3) by simp
  then have "0 \<le> ?m1" by linarith
  from Cons.IH[OF step this] Cons.prems(3)
  obtain m where m: "moving_average (fold push rs (push r s)) = Fin m"
    "if rs = [] then m = ?m1 else 1 \<le> m"
    by auto
  then have "1 \<le> m" using ge by (cases "rs = []") simp_all
  with m(1) show ?case by simp
qed

text \<open>
  C2 (as stated in the specification, refuted): the first push of the reading 0 leaves
  the moving average at 1, not at \<open>0.1 \<cdot> (0 + 1)\<close>.
\<close>

theorem C2_first_push_counterexample:
  "moving_average (push 0 sensor_init) = Fin 1 \<and>
   moving_average (push 0 sensor_init) \<noteq> Fin (9 / 10 * 0 + 1 / 10 * (0 + 1))"
  by (simp add: push_def sensor_init_def update_average_Fin)

text \<open>
  C2 (amended): the offset 1 is added after the weighted sum, unscaled. Pushing the reading
  \<open>r\<close> onto a finite moving average \<open>m\<close> gives \<open>0.9 \<cdot> m + 0.1 \<cdot> r + 1\<close>, and the
  first push from the initial value 0 gives \<open>0.1 \<cdot> r + 1\<close>.
\<close>

theorem C2_push_moving_average:
  "moving_average (push r (s\<lparr>moving_average := Fin m\<rparr>)) = Fin (9 / 10 * m + 1 / 10 * of_int r + 1) \<and>
   moving_average (push r sensor_init) = Fin (1 / 10 * of_int r + 1)"
  by (simp add: push_def sensor_init_def update_average_Fin)

text \<open>
  C10: starting from a finite nonnegative moving average (the initial 0 in particular),
  after one or more pushes of nonnegative readings the moving average is finite and at
  least 1, hence positive.
\<close>

theorem C10_moving_average_ge_1:
  assumes "moving_average s = Fin m0" and "0 \<le> m0"
    and "rs \<noteq> []" and "\<forall>r\<in>set rs. 0 \<le> r"
  shows "\<exists>m. moving_average (fold push rs s) = Fin m \<and> 1 \<le> m \<and> \<not> m \<le> 0"
proof -
  from fold_push_average[OF assms(1,2,4)] assms(3)
  obtain m where "moving_average (fold push rs s) = Fin m" "1 \<le> m" by auto
  then show ?thesis by auto
qed

theorem C10_moving_average_ge_1_witness:
  "moving_average sensor_init = Fin 0 \<and> (0::real) \<le> 0 \<and> [0, 500::int] \<noteq> [] \<and>
   list_all (\<lambda>r. 0 \<le> r) [0, 500::int] \<and>
   (\<exists>m. moving_average (fold push [0, 500] sensor_init) = Fin m \<and> 1 \<le> m \<and> \<not> m \<le> 0)"
proof -
  have a: "moving_average sensor_init = Fin 0" by (simp add: sensor_init_def)
  have b: "(0::real) \<le> 0" by simp
  have c: "[0, 500::int] \<noteq> []" by simp
  have d: "\<forall>r\<in>set [0, 500::int]. 0 \<le> r" by simp
  show ?thesis using a b c C10_moving_average_ge_1[OF a b c d] by simp
qed

section \<open>Sensor thread: what ends the loop\<close>

lemma subscriber_read_batches:
  "subscriber (map (\<lambda>(samples, flag). \<lparr>get_scan = Inr samples, exit_flag = flag\<rparr>) bs @ rest) s
   = subscriber rest (fold push (concat (map fst bs)) s)"
  by (induction bs arbitrary: s) (auto simp add: try_block_def check_exit_def)

text \<open>
  The handler that catches \<^verbatim>\<open>thread_aborted\<close> belongs to the loop's body, so the loop
  goes on after the flag is set: batches read with the flag set are processed one after
  the other and the loop is still running.
\<close>

lemma subscriber_continues_after_shutdown:
  "subscriber (map (\<lambda>samples. \<lparr>get_scan = Inr samples, exit_flag = True\<rparr>) batches) s
   = Running (fold push (concat batches) s)"
  using subscriber_read_batches[of "map (\<lambda>samples. (samples, True)) batches" "[]" s]
  by (simp add: comp_def)

text \<open>
  C3 (as stated in the specification, refuted): an error raised by the read of the first
  batch, with the flag unset, leaves the loop, and the second batch is never read; and
  with the flag set at both checks, two batches are processed and the loop is still
  running.
\<close>

theorem C3_error_ends_loop_counterexample:
  "subscriber [\<lparr>get_scan = Inl device_error, exit_flag = False\<rparr>,
               \<lparr>get_scan = Inr [500], exit_flag = False\<rparr>] sensor_init
   = Terminated device_error sensor_init \<and>
   subscriber [\<lparr>get_scan = Inr [0], exit_flag = True\<rparr>,
               \<lparr>get_scan = Inr [0], exit_flag = True\<rparr>] sensor_init
   = Running \<lparr>c_buf = [0, 0], moving_average = Fin (19 / 10)\<rparr>"
  by (simp add: try_block_def check_exit_def push_def push_back_def buf_size_def sensor_init_def
      update_average_Fin)

text \<open>
  C3 (amended): the loop catches nothing but the shutdown sentinel. While batches are read
  without error and the flag is unset the loop keeps running, every reading pushed in
  order; an error raised by the read of a batch, other than the sentinel, is not caught
  and leaves the loop at once, whatever the flag and whatever batches would follow.
\<close>

theorem C3_uncaught_error_ends_loop:
  assumes "e \<noteq> thread_aborted"
  shows "subscriber (map (\<lambda>samples. \<lparr>get_scan = Inr samples, exit_flag = False\<rparr>) batches) s
           = Running (fold push (concat batches) s) \<and>
         subscriber (map (\<lambda>samples. \<lparr>get_scan = Inr samples, exit_flag = False\<rparr>) batches
                     @ \<lparr>get_scan = Inl e, exit_flag = flag\<rparr> # rest) s
           = Terminated e (fold push (concat batches) s)"
proof -
  let ?bs = "map (\<lambda>samples. (samples, False)) batches"
  have m: "map (\<lambda>(samples, flag). \<lparr>get_scan = Inr samples, exit_flag = flag\<rparr>) ?bs
           = map (\<lambda>samples. \<lparr>get_scan = Inr samples, exit_flag = False\<rparr>) batches"
    by simp
  have c: "concat (map fst ?bs) = concat batches"
    by (simp add: comp_def)
  have "subscriber (\<lparr>get_scan = Inl e, exit_flag = flag\<rparr> # rest) t = Terminated e t" for t
    using assms by (cases e) (simp_all add: try_block_def)
  then show ?thesis
    using subscriber_read_batches[of ?bs "[]" s]
      subscriber_read_batches[of ?bs "\<lparr>get_scan = Inl e, exit_flag = flag\<rparr> # rest" s]
    unfolding m c by simp
qed

theorem C3_uncaught_error_ends_loop_witness:
  "device_error \<noteq> thread_aborted \<and>
   subscriber (map (\<lambda>samples. \<lparr>get_scan = Inr samples, exit_flag = False\<rparr>) [[1, 2], [3]])
     sensor_init
     = Running (fold push (concat [[1, 2], [3]]) sensor_init) \<and>
   subscriber (map (\<lambda>samples. \<lparr>get_scan = Inr samples, exit_flag = False\<rparr>) [[1, 2], [3]]
               @ \<lparr>get_scan = Inl device_error, exit_flag = True\<rparr> # []) sensor_init
     = Terminated device_error (fold push (concat [[1, 2], [3]]) sensor_init)"
  using C3_uncaught_error_ends_loop[of device_error "[[1, 2], [3]]" sensor_init True "[]"]
  by simp

section \<open>Reading the ring: clamping and the empty range\<close>

text \<open>
  The read of the ring in the signal computation, for every index: the access raises
  nothing, so the handler is never entered. Inside the filled range the value is the
  stored reading capped at 1000; outside it the value is what the unchecked access
  reads, capped at 1000, and not the 0 of the handler.
\<close>

lemma sampleAt_unchecked:
  "sampleAt beyond buf i =
     Inr (min (if 0 \<le> i \<and> i < int (length buf) then buf ! nat i else beyond i) 1000) \<and>
   val_at beyond buf i =
     Fin (of_int (min (if 0 \<le> i \<and> i < int (length buf) then buf ! nat i else beyond i) 1000))"
  by (simp add: sampleAt_def val_at_def clamped_read_def c_buf_at_def min_def)

text \<open>
  C4 (the code at the failing input): the ring is still empty and the index is 0,
  outside the filled range; the storage that the unchecked access reads holds 7. The
  value used in the signal computation is 7, not 0. (Inside the filled range a reading
  of 1500 counts as 1000 and a reading of 500 as 500.)
\<close>

theorem C4_out_of_range_read:
  "sampleAt (\<lambda>i. 7) [] 0 = Inr 7 \<and> val_at (\<lambda>i. 7) [] 0 = Fin 7 \<and>
   val_at (\<lambda>i. 7) [1500, 500] 0 = Fin 1000 \<and> val_at (\<lambda>i. 7) [1500, 500] 1 = Fin 500 \<and>
   val_at (\<lambda>i. 7) [1500, 500] 2 = Fin 7"
  by (simp add: sampleAt_def val_at_def clamped_read_def c_buf_at_def)

section \<open>Render: the channel check\<close>

text \<open>
  C8 (as stated in the specification, refuted): with a channel count of 0, which is
  neither 1 nor 2, \<^verbatim>\<open>Render\<close> returns \<^verbatim>\<open>noErr\<close> and adds the frame's output to the first
  buffer.
\<close>

theorem C8_zero_channels_counterexample:
  "sint (0 :: 32 word) \<noteq> 1 \<and> sint (0 :: 32 word) \<noteq> 2 \<and>
   Render (\<lambda>i. 0) (push 0 sensor_init) globals_init (example_note kNoteState_Attacked (Fin 0)) 1
     \<lparr>mNumberBuffers = 0, mBuffers = [[Fin 0]]\<rparr>
   = \<lparr>OSStatus = noErr,
      this_note = (example_note kNoteState_Attacked (Fin 1))\<lparr>phase := Fin (3.14159265358979 / 50)\<rparr>,
      ioData = \<lparr>mNumberBuffers = 0, mBuffers = [[Fin (- 1)]]\<rparr>,
      NoteEnded = None\<rparr>"
  by (simp add: Render_def attacked_block_def attacked_frame_def attacked_note_def attack_amp_def
      frame_out_def write_out_def add_frame_def val_at_def clamped_read_def c_buf_at_def
      sample_idx_def freq_def twopi_def buf_size_def push_def push_back_def sensor_init_def
      globals_init_def example_note_def update_average_Fin fl_sub_def truncate_toward_zero_def
      noErr_def Let_def)

text \<open>
  C8 (amended): \<^verbatim>\<open>Render\<close> rejects the destination exactly when its channel count, read as
  a signed 32-bit integer, is greater than 2: it then returns -1, leaves the buffers and
  the note as they were and does not call \<^verbatim>\<open>NoteEnded\<close>. For every other count it
  returns \<^verbatim>\<open>noErr\<close>.
\<close>

theorem C8_render_channel_check:
  "(2 < sint (mNumberBuffers abl) \<longrightarrow>
      Render beyond sn g n inNumFrames abl =
        \<lparr>OSStatus = - 1, this_note = n, ioData = abl, NoteEnded = None\<rparr>) \<and>
   (\<not> 2 < sint (mNumberBuffers abl) \<longrightarrow> OSStatus (Render beyond sn g n inNumFrames abl) = noErr)"
  by (simp add: Render_def attacked_block_def released_block_def fast_released_block_def Let_def
      split: SynthNoteState.split prod.split)

theorem C8_render_channel_check_witness:
  "2 < sint (mNumberBuffers ((stereo 1)\<lparr>mNumberBuffers := 3\<rparr>)) \<and>
   Render (\<lambda>i. 0) sensor_init globals_init (example_note kNoteState_Attacked (Fin 0)) 1
     ((stereo 1)\<lparr>mNumberBuffers := 3\<rparr>)
   = \<lparr>OSStatus = - 1, this_note = example_note kNoteState_Attacked (Fin 0),
      ioData = (stereo 1)\<lparr>mNumberBuffers := 3\<rparr>, NoteEnded = None\<rparr> \<and>
   \<not> 2 < sint (mNumberBuffers (stereo 1)) \<and>
   OSStatus (Render (\<lambda>i. 0) sensor_init globals_init (example_note kNoteState_Attacked (Fin 0)) 1
     (stereo 1)) = noErr"
  using C8_render_channel_check
    [of "(stereo 1)\<lparr>mNumberBuffers := 3\<rparr>" "\<lambda>i. 0" sensor_init globals_init
        "example_note kNoteState_Attacked (Fin 0)" 1]
    C8_render_channel_check
    [of "stereo 1" "\<lambda>i. 0" sensor_init globals_init "example_note kNoteState_Attacked (Fin 0)" 1]
  by (simp add: stereo_def)

section \<open>Render: the division by the moving average\<close>

text \<open>
  With the moving average at 0, whatever the ring holds and whatever the amplitude and
  the volume are, the output of a frame is not a finite number (and so not 0): it is
  an infinity or not-a-number.
\<close>

lemma val_at_Fin: "\<exists>v. val_at beyond buf i = Fin v"
  by (simp add: val_at_def split: sum.split)

lemma fl_mul_not_Fin: "\<forall>x. a \<noteq> Fin x \<Longrightarrow> fl_mul a b \<noteq> Fin y"
  by (cases a; cases b) auto

lemma frame_out_zero_average:
  assumes "moving_average sn = Fin 0"
  shows "frame_out beyond sn g ph a \<noteq> Fin x"
proof -
  obtain v where v: "val_at beyond (c_buf sn) (sample_idx ph) = Fin v"
    using val_at_Fin by blast
  have "\<forall>x. fl_div (fl_sub (Fin v) (Fin 0)) (Fin 0) \<noteq> Fin x"
    by (simp add: fl_sub_def)
  then have "\<forall>x. fl_mul (fl_div (fl_sub (Fin v) (Fin 0)) (Fin 0)) a \<noteq> Fin x"
    using fl_mul_not_Fin by blast
  then show ?thesis
    unfolding frame_out_def v assms using fl_mul_not_Fin by blast
qed

text \<open>
  C1 (the code at the failing input): one frame of an attacked note, rendered with the
  constructor's parameter values before any reading has arrived (empty ring, moving
  average 0; the storage that the read of the empty ring reaches holds 0). The frame's
  output is \<open>(0 - 0) / 0 \<cdot> 1 \<cdot> 1\<close>: the division is carried out, and not-a-number is
  added into the output buffer.
\<close>

theorem C1_nan_before_first_reading:
  "Render (\<lambda>i. 0) sensor_init globals_init (example_note kNoteState_Attacked (Fin 0)) 1 (mono 1)
   = \<lparr>OSStatus = noErr,
      this_note = (example_note kNoteState_Attacked (Fin 1))\<lparr>phase := Fin (3.14159265358979 / 50)\<rparr>,
      ioData = \<lparr>mNumberBuffers = 1, mBuffers = [[NaN]]\<rparr>,
      NoteEnded = None\<rparr>"
  by (simp add: Render_def attacked_block_def attacked_frame_def attacked_note_def attack_amp_def
      frame_out_def write_out_def add_frame_def val_at_def clamped_read_def c_buf_at_def
      sample_idx_def freq_def twopi_def buf_size_def sensor_init_def globals_init_def
      example_note_def mono_def fl_sub_def truncate_toward_zero_def noErr_def Let_def)

section \<open>The loops of Render\<close>

lemma attacked_fold_note:
  "fst (fold (attacked_frame beyond sn g c) [0..<k] (n, bufs)) = (attacked_note g ^^ k) n"
  by (induction k) (simp_all add: attacked_frame_def split_beta)

lemma released_fold_note:
  "fst (fold (released_frame beyond sn g c) [0..<k] (n, bufs, e)) = (released_note g ^^ k) n"
  by (induction k) (simp_all add: released_frame_def split_beta)

lemma fast_released_fold_note:
  "fst (fold (fast_released_frame beyond sn g c) [0..<k] (n, bufs, e)) = (fast_released_note ^^ k) n"
  by (induction k) (simp_all add: fast_released_frame_def split_beta)


lemma attacked_note_funpow_consts:
  "maxamp ((attacked_note g ^^ k) n) = maxamp n \<and>
   SampleRate ((attacked_note g ^^ k) n) = SampleRate n \<and>
   Frequency ((attacked_note g ^^ k) n) = Frequency n"
  by (induction k) (simp_all add: attacked_note_def Let_def)

lemma released_note_funpow_consts:
  "maxamp ((released_note g ^^ k) n) = maxamp n \<and>
   SampleRate ((released_note g ^^ k) n) = SampleRate n \<and>
   Frequency ((released_note g ^^ k) n) = Frequency n"
  by (induction k) (simp_all add: released_note_def)

lemma fast_released_note_funpow_consts:
  "maxamp ((fast_released_note ^^ k) n) = maxamp n \<and>
   fast_dn_slope ((fast_released_note ^^ k) n) = fast_dn_slope n \<and>
   SampleRate ((fast_released_note ^^ k) n) = SampleRate n \<and>
   Frequency ((fast_released_note ^^ k) n) = Frequency n"
  by (induction k) (simp_all add: fast_released_note_def)








lemma Render_released:
  "\<not> 2 < sint (mNumberBuffers abl) \<Longrightarrow> GetState n = kNoteState_Released \<Longrightarrow>
   Render beyond sn g n N abl = released_block beyond sn g (sint (mNumberBuffers abl)) N n abl"
  by (simp add: Render_def)


lemma released_block_note:
  "this_note (released_block beyond sn g c N n abl) = (released_note g ^^ unat N) n"
  using released_fold_note[of beyond sn g c "unat N" n "mBuffers abl" "0xFFFFFFFF"]
  by (simp add: released_block_def split_beta)

section \<open>Render: the end of a released note\<close>






section \<open>Render: the range of the amplitude\<close>

lemma attacked_amp_bounds:
  assumes m: "maxamp n = Fin m" and sr: "SampleRate n = Fin sr"
    and t: "globalAmpAttack g = Fin t" and p: "0 \<le> sr * t"
    and a: "amp n = Fin a" "0 \<le> a" "a \<le> m"
  shows "\<exists>a'. amp ((attacked_note g ^^ k) n) = Fin a' \<and> 0 \<le> a' \<and> a' \<le> m"
proof (induction k)
  case 0
  then show ?case using a by simp
next
  case (Suc k)
  let ?nk = "(attacked_note g ^^ k) n"
  from Suc obtain b where b: "amp ?nk = Fin b" "0 \<le> b" "b \<le> m" by blast
  have c: "maxamp ?nk = Fin m" "SampleRate ?nk = Fin sr"
    by (simp_all add: attacked_note_funpow_consts m sr)
  have "amp (attacked_note g ?nk) = attack_amp g ?nk"
    by (simp add: attacked_note_def Let_def)
  moreover have "\<exists>a'. attack_amp g ?nk = Fin a' \<and> 0 \<le> a' \<and> a' \<le> m"
  proof (cases "b < m")
    case False
    then show ?thesis using b by (simp add: attack_amp_def c)
  next
    case True
    then have mpos: "0 < m" using b by linarith
    show ?thesis
    proof (cases "sr * t = 0")
      case True
      then show ?thesis using b mpos \<open>b < m\<close> by (simp add: attack_amp_def c t)
    next
      case False
      then have "0 < sr * t" using p by linarith
      then have "0 \<le> m / (sr * t)" using mpos by simp
      then show ?thesis
        using b \<open>b < m\<close> False by (auto simp add: attack_amp_def c t Let_def)
    qed
  qed
  ultimately show ?case by simp
qed

lemma released_amp_bounds:
  assumes m: "maxamp n = Fin m" and sr: "SampleRate n = Fin sr"
    and t: "globalAmpRelease g = Fin t" and p: "0 < sr * t"
    and a: "amp n = Fin a" "0 \<le> a" "a \<le> m"
  shows "\<exists>a'. amp ((released_note g ^^ k) n) = Fin a' \<and> - (m / (sr * t)) \<le> a' \<and> a' \<le> m"
proof -
  define d where "d = m / (sr * t)"
  have mnn: "0 \<le> m" using a by linarith
  have d: "0 \<le> d" unfolding d_def using p mnn by simp
  have "sr * t \<noteq> 0" using p by linarith
  then have dec: "fl_div (Fin m) (fl_mul (Fin sr) (Fin t)) = Fin d"
    unfolding d_def by simp
  have "\<exists>a'. amp ((released_note g ^^ k) n) = Fin a' \<and> - d \<le> a' \<and> a' \<le> m"
  proof (induction k)
    case 0
    then show ?case using a d by (intro exI[of _ a]) simp
  next
    case (Suc k)
    let ?nk = "(released_note g ^^ k) n"
    from Suc obtain b where b: "amp ?nk = Fin b" "- d \<le> b" "b \<le> m" by blast
    have c: "maxamp ?nk = Fin m" "SampleRate ?nk = Fin sr"
      by (simp_all add: released_note_funpow_consts m sr)
    have "amp (released_note g ?nk) = (if 0 < b then Fin (b - d) else Fin b)"
      using b(1) dec by (simp add: released_note_def release_amp_def c t fl_sub_def)
    then show ?case using b d by auto
  qed
  then show ?thesis unfolding d_def .
qed

lemma fast_released_amp_bounds:
  assumes m: "maxamp n = Fin m" and s: "fast_dn_slope n = Fin s" "s \<le> 0"
    and a: "amp n = Fin a" "0 \<le> a" "a \<le> m"
  shows "\<exists>a'. amp ((fast_released_note ^^ k) n) = Fin a' \<and> s \<le> a' \<and> a' \<le> m"
proof (induction k)
  case 0
  then show ?case using a s by (intro exI[of _ a]) simp
next
  case (Suc k)
  let ?nk = "(fast_released_note ^^ k) n"
  from Suc obtain b where b: "amp ?nk = Fin b" "s \<le> b" "b \<le> m" by blast
  have c: "fast_dn_slope ?nk = Fin s"
    by (simp add: fast_released_note_funpow_consts s)
  have "amp (fast_released_note ?nk) = (if 0 < b then Fin (b + s) else Fin b)"
    using b(1) by (simp add: fast_released_note_def fast_release_amp_def c)
  then show ?case using b s by auto
qed

lemma Render_attacked:
  "\<not> 2 < sint (mNumberBuffers abl) \<Longrightarrow>
   GetState n \<in> {kNoteState_Attacked, kNoteState_Sostenutoed,
                 kNoteState_ReleasedButSostenutoed, kNoteState_ReleasedButSustained} \<Longrightarrow>
   Render beyond sn g n N abl = attacked_block beyond sn g (sint (mNumberBuffers abl)) N n abl"
  by (auto simp add: Render_def)

lemma Render_fast_released:
  "\<not> 2 < sint (mNumberBuffers abl) \<Longrightarrow> GetState n = kNoteState_FastReleased \<Longrightarrow>
   Render beyond sn g n N abl = fast_released_block beyond sn g (sint (mNumberBuffers abl)) N n abl"
  by (simp add: Render_def)

lemma Render_default:
  "\<not> 2 < sint (mNumberBuffers abl) \<Longrightarrow>
   GetState n \<in> {kNoteState_Free, kNoteState_Unset} \<Longrightarrow>
   Render beyond sn g n N abl = \<lparr>OSStatus = noErr, this_note = n, ioData = abl, NoteEnded = None\<rparr>"
  by (auto simp add: Render_def)

lemma attacked_block_note:
  "this_note (attacked_block beyond sn g c N n abl) = (attacked_note g ^^ unat N) n"
  using attacked_fold_note[of beyond sn g c "unat N" n "mBuffers abl"]
  by (simp add: attacked_block_def split_beta)

lemma fast_released_block_note:
  "this_note (fast_released_block beyond sn g c N n abl) = (fast_released_note ^^ unat N) n"
  using fast_released_fold_note[of beyond sn g c "unat N" n "mBuffers abl" "0xFFFFFFFF"]
  by (simp add: fast_released_block_def split_beta)

text \<open>
  C5 (as stated in the specification, refuted): a released note of amplitude 0.01 with
  a release time of 1 ms leaves its first frame with the amplitude \<open>0.01 - 1/44.1\<close>,
  below 0; with the release time 0 that the constructor sets, a released note of
  amplitude 1 leaves its first frame with the amplitude minus infinity.
\<close>

theorem C5_release_undershoot_counterexample:
  "this_note (Render (\<lambda>i. 0) sensor_init example_globals
      (example_note kNoteState_Released (Fin (1 / 100))) 1 (stereo 1))
   = (example_note kNoteState_Released (Fin (- (559 / 44100))))\<lparr>phase := Fin (3.14159265358979 / 50)\<rparr> \<and>
   (- (559 / 44100) :: real) < 0 \<and>
   amp (this_note (Render (\<lambda>i. 0) sensor_init globals_init
      (example_note kNoteState_Released (Fin 1)) 1 (stereo 1))) = NInf"
  by (simp add: Render_released released_block_note released_note_def release_amp_def
      freq_def twopi_def fl_sub_def example_note_def example_globals_def globals_init_def stereo_def)

text \<open>
  C5 (amended): for a block rendered from an amplitude in \<open>[0, maxamp]\<close>, with finite
  parameters. Attacked and sustained states, the product of sample rate and attack time
  not negative: the amplitude stays in \<open>[0, maxamp]\<close>. Released state, the product of
  sample rate and release time positive: the amplitude stays at or below \<open>maxamp\<close> and at or
  above \<open>- maxamp / (sampleRate \<cdot> releaseTime)\<close>; it is not clamped at 0. Fast-released
  state, the slope not positive: the amplitude stays at or below \<open>maxamp\<close> and at or above
  the slope. In every other state the amplitude is unchanged.
\<close>

theorem C5_amplitude_bounds:
  assumes chans: "\<not> 2 < sint (mNumberBuffers abl)"
    and m: "maxamp n = Fin m" and sr: "SampleRate n = Fin sr"
    and a: "amp n = Fin a" "0 \<le> a" "a \<le> m"
  shows "(GetState n \<in> {kNoteState_Attacked, kNoteState_Sostenutoed,
                         kNoteState_ReleasedButSostenutoed, kNoteState_ReleasedButSustained} \<longrightarrow>
          globalAmpAttack g = Fin t \<longrightarrow> 0 \<le> sr * t \<longrightarrow>
            (\<exists>a'. amp (this_note (Render beyond sn g n N abl)) = Fin a' \<and> 0 \<le> a' \<and> a' \<le> m)) \<and>
         (GetState n = kNoteState_Released \<longrightarrow>
          globalAmpRelease g = Fin t \<longrightarrow> 0 < sr * t \<longrightarrow>
            (\<exists>a'. amp (this_note (Render beyond sn g n N abl)) = Fin a' \<and>
                  - (m / (sr * t)) \<le> a' \<and> a' \<le> m)) \<and>
         (GetState n = kNoteState_FastReleased \<longrightarrow>
          fast_dn_slope n = Fin s \<longrightarrow> s \<le> 0 \<longrightarrow>
            (\<exists>a'. amp (this_note (Render beyond sn g n N abl)) = Fin a' \<and> s \<le> a' \<and> a' \<le> m)) \<and>
         (GetState n \<in> {kNoteState_Free, kNoteState_Unset} \<longrightarrow>
            amp (this_note (Render beyond sn g n N abl)) = Fin a)"
proof (intro conjI impI)
  assume "GetState n \<in> {kNoteState_Attacked, kNoteState_Sostenutoed,
            kNoteState_ReleasedButSostenutoed, kNoteState_ReleasedButSustained}"
    and "globalAmpAttack g = Fin t" and "0 \<le> sr * t"
  then show "\<exists>a'. amp (this_note (Render beyond sn g n N abl)) = Fin a' \<and> 0 \<le> a' \<and> a' \<le> m"
    using attacked_amp_bounds[OF m sr _ _ a, of g t "unat N"]
    by (simp only: Render_attacked[OF chans] attacked_block_note)
next
  assume "GetState n = kNoteState_Released"
    and "globalAmpRelease g = Fin t" and "0 < sr * t"
  then show "\<exists>a'. amp (this_note (Render beyond sn g n N abl)) = Fin a' \<and>
                  - (m / (sr * t)) \<le> a' \<and> a' \<le> m"
    using released_amp_bounds[OF m sr _ _ a, of g t "unat N"]
    by (simp only: Render_released[OF chans] released_block_note)
next
  assume "GetState n = kNoteState_FastReleased"
    and "fast_dn_slope n = Fin s" and "s \<le> 0"
  then show "\<exists>a'. amp (this_note (Render beyond sn g n N abl)) = Fin a' \<and> s \<le> a' \<and> a' \<le> m"
    using fast_released_amp_bounds[OF m _ _ a, of s "unat N"]
    by (simp only: Render_fast_released[OF chans] fast_released_block_note)
next
  assume "GetState n \<in> {kNoteState_Free, kNoteState_Unset}"
  then show "amp (this_note (Render beyond sn g n N abl)) = Fin a"
    using a(1) by (simp add: Render_default[OF chans])
qed

theorem C5_amplitude_bounds_witness:
  "\<not> 2 < sint (mNumberBuffers (stereo 64)) \<and>
   (0::real) \<le> 1 / 2 \<and> (1 / 2 :: real) \<le> 1 \<and> (0::real) \<le> 44100 * (1 / 1000) \<and>
   (0::real) < 44100 * (1 / 1000) \<and> (- (2 / 441) :: real) \<le> 0 \<and>
   (\<exists>a'. amp (this_note (Render (\<lambda>i. 0) sensor_init example_globals
             (example_note kNoteState_Attacked (Fin (1 / 2))) 64 (stereo 64))) = Fin a' \<and>
         0 \<le> a' \<and> a' \<le> 1) \<and>
   (\<exists>a'. amp (this_note (Render (\<lambda>i. 0) sensor_init example_globals
             (example_note kNoteState_Released (Fin (1 / 2))) 64 (stereo 64))) = Fin a' \<and>
         - (1 / (44100 * (1 / 1000))) \<le> a' \<and> a' \<le> 1) \<and>
   (\<exists>a'. amp (this_note (Render (\<lambda>i. 0) sensor_init example_globals
             (example_note kNoteState_FastReleased (Fin (1 / 2))) 64 (stereo 64))) = Fin a' \<and>
         - (2 / 441) \<le> a' \<and> a' \<le> 1) \<and>
   amp (this_note (Render (\<lambda>i. 0) sensor_init example_globals
             (example_note kNoteState_Free (Fin (1 / 2))) 64 (stereo 64))) = Fin (1 / 2)"
  using C5_amplitude_bounds[of "stereo 64" "example_note kNoteState_Attacked (Fin (1 / 2))" 1 44100
      "1 / 2" example_globals "1 / 1000" "\<lambda>i. 0" sensor_init 64 "- (2 / 441)"]
    C5_amplitude_bounds[of "stereo 64" "example_note kNoteState_Released (Fin (1 / 2))" 1 44100
      "1 / 2" example_globals "1 / 1000" "\<lambda>i. 0" sensor_init 64 "- (2 / 441)"]
    C5_amplitude_bounds[of "stereo 64" "example_note kNoteState_FastReleased (Fin (1 / 2))" 1 44100
      "1 / 2" example_globals "1 / 1000" "\<lambda>i. 0" sensor_init 64 "- (2 / 441)"]
    C5_amplitude_bounds[of "stereo 64" "example_note kNoteState_Free (Fin (1 / 2))" 1 44100
      "1 / 2" example_globals "1 / 1000" "\<lambda>i. 0" sensor_init 64 "- (2 / 441)"]
  by (simp add: example_note_def example_globals_def stereo_def)

section \<open>Render: the phase\<close>

lemma freq_attacked_funpow: "freq ((attacked_note g ^^ k) n) = freq n"
  by (simp add: freq_def attacked_note_funpow_consts)

lemma freq_released_funpow: "freq ((released_note g ^^ k) n) = freq n"
  by (simp add: freq_def released_note_funpow_consts)

lemma freq_fast_released_funpow: "freq ((fast_released_note ^^ k) n) = freq n"
  by (simp add: freq_def fast_released_note_funpow_consts)

lemma phase_attacked_note:
  "phase (attacked_note g x)
   = (let q = fl_add (phase x) (freq x) in if fl_less twopi q then fl_sub q twopi else q)"
  by (simp add: attacked_note_def Let_def)

lemma phase_released_note: "phase (released_note g x) = fl_add (phase x) (freq x)"
  by (simp add: released_note_def)

lemma phase_fast_released_note: "phase (fast_released_note x) = fl_add (phase x) (freq x)"
  by (simp add: fast_released_note_def)

lemma attacked_phase:
  "phase ((attacked_note g ^^ k) n)
   = ((\<lambda>p. let q = fl_add p (freq n) in if fl_less twopi q then fl_sub q twopi else q) ^^ k)
       (phase n)"
  by (induction k) (simp_all add: phase_attacked_note freq_attacked_funpow)

lemma released_phase:
  "phase ((released_note g ^^ k) n) = ((\<lambda>p. fl_add p (freq n)) ^^ k) (phase n)"
  by (induction k) (simp_all add: phase_released_note freq_released_funpow)

lemma fast_released_phase:
  "phase ((fast_released_note ^^ k) n) = ((\<lambda>p. fl_add p (freq n)) ^^ k) (phase n)"
  by (induction k) (simp_all add: phase_fast_released_note freq_fast_released_funpow)

lemma add_funpow_Fin: "((\<lambda>p. fl_add p (Fin f)) ^^ k) (Fin p) = Fin (p + real k * f)"
  by (induction k) (simp_all add: algebra_simps)

text \<open>
  C9: over a block of \<open>N\<close> frames, in the attacked and sustained states every frame
  adds the frequency times \<open>2\<pi>\<close> over the sample rate to the phase and then subtracts
  \<open>2\<pi>\<close> if the sum exceeds \<open>2\<pi>\<close>; in the released and the fast-released state
  every frame only adds that increment, so that a finite phase \<open>p\<close> ends the block at
  \<open>p + N \<cdot> frequency \<cdot> 2\<pi> / sampleRate\<close>, however large. Here \<open>2\<pi>\<close> is the
  constant \<^verbatim>\<open>twopi\<close> of the source.
\<close>

theorem C9_phase_wrap_asymmetry:
  assumes chans: "\<not> 2 < sint (mNumberBuffers abl)"
  shows "twopi = Fin (2 * 3.14159265358979) \<and>
         (GetState n \<in> {kNoteState_Attacked, kNoteState_Sostenutoed,
                         kNoteState_ReleasedButSostenutoed, kNoteState_ReleasedButSustained} \<longrightarrow>
          phase (this_note (Render beyond sn g n N abl))
          = ((\<lambda>p. let q = fl_add p (fl_mul (Frequency n) (fl_div twopi (SampleRate n)))
                   in if fl_less twopi q then fl_sub q twopi else q)
               ^^ unat N) (phase n)) \<and>
         (GetState n \<in> {kNoteState_Released, kNoteState_FastReleased} \<longrightarrow>
          phase (this_note (Render beyond sn g n N abl))
          = ((\<lambda>p. fl_add p (fl_mul (Frequency n) (fl_div twopi (SampleRate n)))) ^^ unat N)
              (phase n)) \<and>
         (GetState n \<in> {kNoteState_Released, kNoteState_FastReleased} \<longrightarrow>
          phase n = Fin p \<longrightarrow> Frequency n = Fin fr \<longrightarrow> SampleRate n = Fin sr \<longrightarrow> sr \<noteq> 0 \<longrightarrow>
          phase (this_note (Render beyond sn g n N abl))
          = Fin (p + real (unat N) * (fr * (2 * 3.14159265358979 / sr))))"
proof -
  have rel: "phase (this_note (Render beyond sn g n N abl))
             = ((\<lambda>p. fl_add p (freq n)) ^^ unat N) (phase n)"
    if "GetState n \<in> {kNoteState_Released, kNoteState_FastReleased}"
  proof (cases "GetState n = kNoteState_Released")
    case True
    then show ?thesis
      by (simp only: Render_released[OF chans] released_block_note released_phase)
  next
    case False
    then have "GetState n = kNoteState_FastReleased" using that by simp
    then show ?thesis
      by (simp only: Render_fast_released[OF chans] fast_released_block_note fast_released_phase)
  qed
  have att: "phase (this_note (Render beyond sn g n N abl))
          = ((\<lambda>p. let q = fl_add p (freq n) in if fl_less twopi q then fl_sub q twopi else q)
               ^^ unat N) (phase n)"
    if "GetState n \<in> {kNoteState_Attacked, kNoteState_Sostenutoed,
                         kNoteState_ReleasedButSostenutoed, kNoteState_ReleasedButSustained}"
    using that by (simp only: Render_attacked[OF chans] attacked_block_note attacked_phase)
  have f: "freq n = fl_mul (Frequency n) (fl_div twopi (SampleRate n))"
    by (simp add: freq_def)
  have fin: "fl_mul (Frequency n) (fl_div twopi (SampleRate n))
             = Fin (fr * (2 * 3.14159265358979 / sr))"
    if "Frequency n = Fin fr" "SampleRate n = Fin sr" "sr \<noteq> 0"
    using that by (simp add: twopi_def)
  show ?thesis
    using rel att fin unfolding f by (auto simp add: add_funpow_Fin twopi_def)
qed

theorem C9_phase_wrap_asymmetry_witness:
  "\<not> 2 < sint (mNumberBuffers (stereo 128)) \<and>
   twopi = Fin (2 * 3.14159265358979) \<and>
   phase (this_note (Render (\<lambda>i. 0) sensor_init example_globals
            (example_note kNoteState_Attacked (Fin 0)) 128 (stereo 128)))
   = ((\<lambda>p. let q = fl_add p (fl_mul (Frequency (example_note kNoteState_Attacked (Fin 0)))
                      (fl_div twopi (SampleRate (example_note kNoteState_Attacked (Fin 0)))))
            in if fl_less twopi q then fl_sub q twopi else q) ^^ unat (128 :: 32 word))
       (phase (example_note kNoteState_Attacked (Fin 0))) \<and>
   phase (this_note (Render (\<lambda>i. 0) sensor_init example_globals
            (example_note kNoteState_FastReleased (Fin 1)) 128 (stereo 128)))
   = ((\<lambda>p. fl_add p (fl_mul (Frequency (example_note kNoteState_FastReleased (Fin 1)))
               (fl_div twopi (SampleRate (example_note kNoteState_FastReleased (Fin 1))))))
        ^^ unat (128 :: 32 word)) (phase (example_note kNoteState_FastReleased (Fin 1))) \<and>
   phase (example_note kNoteState_Released (Fin 1)) = Fin 0 \<and>
   Frequency (example_note kNoteState_Released (Fin 1)) = Fin 441 \<and>
   SampleRate (example_note kNoteState_Released (Fin 1)) = Fin 44100 \<and>
   phase (this_note (Render (\<lambda>i. 0) sensor_init example_globals
            (example_note kNoteState_Released (Fin 1)) 128 (stereo 128)))
   = Fin (0 + real (unat (128 :: 32 word)) * (441 * (2 * 3.14159265358979 / 44100))) \<and>
   fl_less twopi (Fin (0 + real (unat (128 :: 32 word)) * (441 * (2 * 3.14159265358979 / 44100))))"
proof -
  have c: "\<not> 2 < sint (mNumberBuffers (stereo 128))"
    by (simp add: stereo_def)
  have a: "GetState (example_note kNoteState_Attacked (Fin 0))
           \<in> {kNoteState_Attacked, kNoteState_Sostenutoed,
              kNoteState_ReleasedButSostenutoed, kNoteState_ReleasedButSustained}"
    by (simp add: example_note_def)
  have f: "GetState (example_note kNoteState_FastReleased (Fin 1))
           \<in> {kNoteState_Released, kNoteState_FastReleased}"
    by (simp add: example_note_def)
  have r: "GetState (example_note kNoteState_Released (Fin 1))
           \<in> {kNoteState_Released, kNoteState_FastReleased}"
    by (simp add: example_note_def)
  have p: "phase (example_note kNoteState_Released (Fin 1)) = Fin 0"
    by (simp add: example_note_def)
  have fr: "Frequency (example_note kNoteState_Released (Fin 1)) = Fin 441"
    by (simp add: example_note_def)
  have sr: "SampleRate (example_note kNoteState_Released (Fin 1)) = Fin 44100"
    by (simp add: example_note_def)
  have nz: "(44100 :: real) \<noteq> 0" by simp
  have w: "fl_less twopi
             (Fin (0 + real (unat (128 :: 32 word)) * (441 * (2 * 3.14159265358979 / 44100))))"
    by (simp add: twopi_def)
  note t = C9_phase_wrap_asymmetry[OF c]
  show ?thesis
    using c p fr sr w t[THEN conjunct1]
      t[THEN conjunct2, THEN conjunct1, THEN mp, OF a]
      t[THEN conjunct2, THEN conjunct2, THEN conjunct1, THEN mp, OF f]
      t[THEN conjunct2, THEN conjunct2, THEN conjunct2, THEN mp, THEN mp, THEN mp, THEN mp,
        THEN mp, OF r p fr sr nz]
    by blast
qed

section \<open>Voice stealing\<close>

text \<open>
  In the source, the note's part in a steal is the same call as its part in a release.
\<close>

lemma FastRelease_calls_Release:
  "FastRelease SynthNote_Release inFrame n = Release SynthNote_Release inFrame n"
  by (simp add: FastRelease_def Release_def)

lemma oldest_victim_None:
  "(oldest_victim pool = None) = (\<forall>v\<in>set pool. \<not> stealable v)"
  by (induction pool) (auto split: option.splits)

lemma oldest_victim_stealable:
  "oldest_victim pool = Some v \<Longrightarrow> v < length pool \<and> stealable (pool ! v)"
proof (induction pool arbitrary: v)
  case Nil
  then show ?case by simp
next
  case (Cons x xs)
  show ?case
  proof (cases "oldest_victim xs")
    case None
    then show ?thesis using Cons.prems by (simp split: if_splits)
  next
    case (Some j)
    then have "j < length xs \<and> stealable (xs ! j)" by (rule Cons.IH)
    then show ?thesis using Cons.prems Some by (auto split: if_splits)
  qed
qed

lemma first_free_None:
  "(first_free pool = None) = (\<forall>v\<in>set pool. GetState v \<noteq> kNoteState_Free)"
  by (induction pool) auto

text \<open>
  C7: in the allocator of the specification, a note-on that finds no free voice, with
  the count of active voices at capacity (and a voice that can be stolen among them),
  steals a voice: in the pool just before the slot is assigned the victim is in the
  fast-released state, and afterwards the slot holds the new, attacked note.
\<close>

theorem C7_stolen_voice_fast_released:
  assumes none_free: "first_free pool = None"
    and full: "active_count pool = kMaxActiveNotes"
    and some: "\<exists>i<length pool. stealable (pool ! i)"
  shows "\<exists>v. v < length pool \<and> stealable (pool ! v) \<and>
             noteOn pool f now = Some (v, steal pool v, claim (steal pool v) v f now) \<and>
             GetState (steal pool v ! v) = kNoteState_FastReleased \<and>
             length (steal pool v) = kMaxActiveNotes \<and>
             GetState (claim (steal pool v) v f now ! v) = kNoteState_Attacked"
proof -
  have len: "length pool = kMaxActiveNotes"
    using none_free full by (simp add: first_free_None active_count_def)
  from some have "oldest_victim pool \<noteq> None"
    by (auto simp add: oldest_victim_None)
  then obtain v where v: "oldest_victim pool = Some v" by auto
  then have vs: "v < length pool" "stealable (pool ! v)"
    using oldest_victim_stealable by blast+
  have "noteOn pool f now = Some (v, steal pool v, claim (steal pool v) v f now)"
    by (simp add: noteOn_def none_free v)
  moreover have "GetState (steal pool v ! v) = kNoteState_FastReleased"
    using vs(1) by (simp add: steal_def)
  moreover have "GetState (claim (steal pool v) v f now ! v) = kNoteState_Attacked"
    using vs(1) by (simp add: claim_def steal_def)
  moreover have "length (steal pool v) = kMaxActiveNotes"
    using len by (simp add: steal_def)
  ultimately show ?thesis using vs by blast
qed

theorem C7_stolen_voice_fast_released_witness:
  "first_free (map (example_voice kNoteState_Attacked) [3, 1, 4, 0, 5, 9, 2, 6]) = None \<and>
   active_count (map (example_voice kNoteState_Attacked) [3, 1, 4, 0, 5, 9, 2, 6]) = kMaxActiveNotes \<and>
   (\<exists>i<length (map (example_voice kNoteState_Attacked) [3, 1, 4, 0, 5, 9, 2, 6]).
      stealable (map (example_voice kNoteState_Attacked) [3, 1, 4, 0, 5, 9, 2, 6] ! i)) \<and>
   (\<exists>v. v < length (map (example_voice kNoteState_Attacked) [3, 1, 4, 0, 5, 9, 2, 6]) \<and>
        stealable (map (example_voice kNoteState_Attacked) [3, 1, 4, 0, 5, 9, 2, 6] ! v) \<and>
        noteOn (map (example_voice kNoteState_Attacked) [3, 1, 4, 0, 5, 9, 2, 6]) (Fin 880) 10
          = Some (v, steal (map (example_voice kNoteState_Attacked) [3, 1, 4, 0, 5, 9, 2, 6]) v,
                  claim (steal (map (example_voice kNoteState_Attacked) [3, 1, 4, 0, 5, 9, 2, 6]) v)
                    v (Fin 880) 10) \<and>
        GetState (steal (map (example_voice kNoteState_Attacked) [3, 1, 4, 0, 5, 9, 2, 6]) v ! v)
          = kNoteState_FastReleased \<and>
        length (steal (map (example_voice kNoteState_Attacked) [3, 1, 4, 0, 5, 9, 2, 6]) v)
          = kMaxActiveNotes \<and>
        GetState (claim (steal (map (example_voice kNoteState_Attacked) [3, 1, 4, 0, 5, 9, 2, 6]) v)
                    v (Fin 880) 10 ! v) = kNoteState_Attacked)"
proof -
  let ?pool = "map (example_voice kNoteState_Attacked) [3, 1, 4, 0, 5, 9, 2, 6]"
  have a: "first_free ?pool = None"
    by (simp add: example_voice_def)
  have b: "active_count ?pool = kMaxActiveNotes"
    by (simp add: active_count_def kMaxActiveNotes_def example_voice_def)
  have "0 < length ?pool \<and> stealable (?pool ! 0)"
    by (simp add: stealable_def example_voice_def)
  then have c: "\<exists>i<length ?pool. stealable (?pool ! i)" by blast
  show ?thesis
    using a b c C7_stolen_voice_fast_released[OF a b c, of "Fin 880" 10] by blast
qed

end
